theory Spec2Isabelle
  imports Complex_Main "HOL-Library.Sublist"
begin

section \<open>Global Assets Settlement System: a model of \<^verbatim>\<open>src/main.py\<close>\<close>

text \<open>
  The script is one sequential run: fetch a rate, choose a workbook, load and clean its
  rows, filter them by date and platform, print a per-date audit and a financial summary.
  Each stage is a function below, named after the Python name it embeds.

  Numbers. The arithmetic of the script is given two readings. The exact reading takes
  every \<^verbatim>\<open>+\<close>, \<^verbatim>\<open>-\<close>, \<^verbatim>\<open>*\<close> and \<^verbatim>\<open>/\<close> of the source as the exact operation
  on rationals (\<^typ>\<open>rat\<close>), the decimal constants as the rationals they denote: it is
  the arithmetic the formulas of the settlement are written in, and the pipeline from the
  workbook to the report is modelled in it. The machine reading is what the interpreter
  computes: unbounded integers and IEEE 754 binary64 floats, every float operation rounded
  to the nearest float; the valuation and the final calculations are modelled in it a
  second time, under names that start with \<open>float_\<close>. Statements of the exact reading say
  nothing about rounding, and say so. In both readings a division by zero raises
  \<^verbatim>\<open>ZeroDivisionError\<close> and is an explicit error value.

  Dates. A parsed pandas timestamp is a point of a linear time axis, modelled as an
  \<^typ>\<open>int\<close>. A date cell of the workbook that pandas reads as missing is \<^verbatim>\<open>NaT\<close>,
  modelled as \<open>None\<close>. An operator date that pandas reads as \<^verbatim>\<open>NaT\<close> is outside the
  model.
\<close>

subsection \<open>Errors and outcomes\<close>

datatype py_error = ValueError | IndexError | ZeroDivisionError | OverflowError

text \<open>The four places where the script prints a message and calls \<^verbatim>\<open>sys.exit()\<close>.\<close>

datatype fatal = DataDirNotFound | NoDatasets | InvalidSelection | LoadingError

subsection \<open>Financial constants (lines 20--23)\<close>

definition LIQUIDATION_RATE :: rat where
  "LIQUIDATION_RATE = 0.75"

definition SERVICE_FEE_RATE :: rat where
  "SERVICE_FEE_RATE = 0.10"

definition SPREAD_FACTOR :: rat where
  "SPREAD_FACTOR = 1.824"

subsection \<open>Rows\<close>

text \<open>
  A row of the data frame, with its four columns. The type \<open>'d\<close> of the date column is
  \<^typ>\<open>int option\<close> in the frame as loaded, where a date may be \<^verbatim>\<open>NaT\<close>, and
  \<^typ>\<open>int\<close> once the range filter has kept only rows with a timestamp.
\<close>

record 'd row =
  date :: 'd
  description :: string
  platform :: string
  amount :: rat

subsection \<open>Library primitives\<close>

text \<open>
  The report text is built with Python's format specifications \<^verbatim>\<open>:g\<close> and
  \<^verbatim>\<open>:.2f\<close>, with \<^verbatim>\<open>Timestamp.date()\<close> and with \<^verbatim>\<open>str.upper\<close>. These are
  primitives of the language and of pandas, not code of the script; the model takes them as
  a record of functions, so that the lines are assembled exactly as the f-strings do.

  \<^verbatim>\<open>sort_values('date')\<close> is a primitive of the same kind: pandas sorts with an unstable
  algorithm, so the order it gives to rows of one date is its own. The model takes the
  sorting procedure as the field \<open>sort_values_date\<close>; no statement below depends on the
  order it produces.
\<close>

record prims =
  fmt_g :: "rat \<Rightarrow> string"
  fmt_2f :: "rat \<Rightarrow> string"
  fmt_date :: "int \<Rightarrow> string"
  str_upper :: "string \<Rightarrow> string"
  sort_values_date :: "int row list \<Rightarrow> int row list"

definition NL :: string where
  "NL = [CHR 0x0A]"

subsection \<open>Valuation (lines 42--71), exact reading\<close>

text \<open>
  \<^verbatim>\<open>print_func\<close> is either \<^verbatim>\<open>None\<close> or a procedure called for its effect. The model
  threads the state the procedure acts on: \<open>Some p\<close> maps a text and a state to the new
  state, and with \<open>None\<close> the state is never touched.
\<close>

type_synonym 'st printer = "(string \<Rightarrow> 'st \<Rightarrow> 'st) option"

definition emit :: "'st printer \<Rightarrow> string \<Rightarrow> 'st \<Rightarrow> 'st" where
  "emit print_func text st = (case print_func of None \<Rightarrow> st | Some p \<Rightarrow> p text st)"

text \<open>The loop body of \<^verbatim>\<open>process_type_1\<close>; the state is \<open>(t_points, t_tasks, st)\<close>.\<close>

fun type_1_loop ::
  "prims \<Rightarrow> 'st printer \<Rightarrow> (rat \<times> rat) list \<Rightarrow> rat \<times> rat \<times> 'st \<Rightarrow> rat \<times> rat \<times> 'st"
where
  "type_1_loop F print_func [] acc = acc"
| "type_1_loop F print_func ((c, t) # rest) (t_points, t_tasks, st) =
     (let subtotal = t * c;
          st' = emit print_func
                  (fmt_g F t @ '' PTS: '' @ fmt_g F c @ '' units ---> Subtotal: ''
                     @ fmt_g F subtotal @ '' points'') st
      in type_1_loop F print_func rest (t_points + subtotal, t_tasks + c, st'))"

definition process_type_1 ::
  "prims \<Rightarrow> rat list \<Rightarrow> rat list \<Rightarrow> 'st printer \<Rightarrow> 'st \<Rightarrow> rat \<times> 'st"
where
  "process_type_1 F counts types print_func st =
     (case type_1_loop F print_func (zip counts types) (0, 0, st) of
        (t_points, t_tasks, st1) \<Rightarrow>
          (let total_usd = t_points / 100;
               st2 = emit print_func
                       (NL @ ''TOTAL TYPE 1: '' @ fmt_g F t_points @ '' PTS ---> ''
                          @ fmt_2f F total_usd @ '' $'') st1;
               st3 = emit print_func (''TOTAL TASKS: '' @ fmt_g F t_tasks @ NL) st2
           in (total_usd, st3)))"

text \<open>The loop body of \<^verbatim>\<open>process_type_2\<close>; the state is \<open>(total_usd, t_tasks, st)\<close>.\<close>

fun type_2_loop ::
  "prims \<Rightarrow> 'st printer \<Rightarrow> (rat \<times> rat) list \<Rightarrow> rat \<times> rat \<times> 'st \<Rightarrow> rat \<times> rat \<times> 'st"
where
  "type_2_loop F print_func [] acc = acc"
| "type_2_loop F print_func ((c, t) # rest) (total_usd, t_tasks, st) =
     (let subtotal = t * c;
          st' = emit print_func
                  (fmt_g F t @ '' $: '' @ fmt_g F c @ '' units ---> Subtotal: ''
                     @ fmt_g F subtotal @ '' $'') st
      in type_2_loop F print_func rest (total_usd + subtotal, t_tasks + c, st'))"

definition process_type_2 ::
  "prims \<Rightarrow> rat list \<Rightarrow> rat list \<Rightarrow> 'st printer \<Rightarrow> 'st \<Rightarrow> rat \<times> 'st"
where
  "process_type_2 F counts types print_func st =
     (case type_2_loop F print_func (zip counts types) (0, 0, st) of
        (total_usd, t_tasks, st1) \<Rightarrow>
          (let st2 = emit print_func
                       (NL @ ''TOTAL TYPE 2: '' @ fmt_2f F total_usd @ '' $'') st1;
               st3 = emit print_func (''TOTAL TASKS: '' @ fmt_g F t_tasks @ NL) st2
           in (total_usd, st3)))"

subsection \<open>Final calculations (lines 148--165), exact reading\<close>

record settlement =
  total_raw_usd :: rat
  total_usdt :: rat
  comm_usdt :: rat
  owner_usdt :: rat
  market_rate :: rat
  comm_ves :: rat
  owner_ves :: rat
  comm_purchasing_usd :: rat
  owner_purchasing_usd :: rat

text \<open>Python's \<^verbatim>\<open>/\<close>: a zero divisor raises, otherwise (here) the exact quotient.\<close>

definition py_truediv :: "rat \<Rightarrow> rat \<Rightarrow> py_error + rat" where
  "py_truediv a b = (if b = 0 then Inl ZeroDivisionError else Inr (a / b))"

definition final_calculations :: "rat \<Rightarrow> rat \<Rightarrow> rat \<Rightarrow> py_error + settlement" where
  "final_calculations total_val_t1 total_val_t2 bcv_rate =
     (let total_raw = total_val_t1 + total_val_t2;
          usdt = total_raw * LIQUIDATION_RATE;
          c_usdt = usdt * SERVICE_FEE_RATE;
          o_usdt = usdt - c_usdt;
          m_rate = bcv_rate * SPREAD_FACTOR;
          c_ves = c_usdt * m_rate;
          o_ves = o_usdt * m_rate
      in case py_truediv c_ves bcv_rate of
           Inl e \<Rightarrow> Inl e
         | Inr c_usd \<Rightarrow>
             (case py_truediv o_ves bcv_rate of
                Inl e \<Rightarrow> Inl e
              | Inr o_usd \<Rightarrow>
                  Inr \<lparr>total_raw_usd = total_raw, total_usdt = usdt, comm_usdt = c_usdt,
                       owner_usdt = o_usdt, market_rate = m_rate, comm_ves = c_ves,
                       owner_ves = o_ves, comm_purchasing_usd = c_usd,
                       owner_purchasing_usd = o_usd\<rparr>))"

subsection \<open>Python numbers: integers and binary64 floats\<close>

text \<open>
  What \<^verbatim>\<open>+\<close>, \<^verbatim>\<open>-\<close>, \<^verbatim>\<open>*\<close> and \<^verbatim>\<open>/\<close> compute when the script runs. A Python
  number is an unbounded integer or a float; a float is an IEEE 754 binary64 value: a sign
  and a magnitude (a rational with a 53-bit significand, exponents from \<open>-1022\<close> to
  \<open>1023\<close>, subnormals included), an infinity, or not-a-number. Every float operation
  returns the exact result rounded to the nearest float, ties to the even significand.
\<close>

datatype pyfloat = Fin bool rat | Inf bool | NaN

datatype pynum = PyInt int | PyFloat pyfloat

text \<open>\<^verbatim>\<open>int.bit_length()\<close> of a non-negative integer.\<close>

function bit_length :: "int \<Rightarrow> int" where
  "bit_length n = (if n \<le> 0 then 0 else 1 + bit_length (n div 2))"
  by pat_completeness auto
termination
  by (relation "measure nat") auto

declare bit_length.simps [simp del]

definition pow2 :: "int \<Rightarrow> rat" where
  "pow2 k = (if 0 \<le> k then 2 ^ nat k else 1 / 2 ^ nat (- k))"

text \<open>The binary exponent of a positive rational: \<open>pow2 e \<le> x < pow2 (e + 1)\<close>.\<close>

definition exponent :: "rat \<Rightarrow> int" where
  "exponent x =
     (if 1 \<le> x then bit_length \<lfloor>x\<rfloor> - 1 else - bit_length (\<lceil>1 / x\<rceil> - 1))"

definition round_half_even :: "rat \<Rightarrow> int" where
  "round_half_even x =
     (let f = \<lfloor>x\<rfloor>; d = x - of_int f
      in if d < 1 / 2 then f else if 1 / 2 < d then f + 1 else if even f then f else f + 1)"

text \<open>
  Rounding a non-negative magnitude to binary64: the spacing of the floats around \<open>x\<close> is
  \<open>pow2 (e - 52)\<close>, with \<open>e\<close> the exponent of \<open>x\<close> and at least \<open>-1022\<close>. \<open>None\<close> is
  overflow: the rounded magnitude would reach \<open>pow2 1024\<close>.
\<close>

definition round_mag :: "rat \<Rightarrow> rat option" where
  "round_mag x =
     (if x = 0 then Some 0
      else
        (let e = max (exponent x) (- 1022);
             q = pow2 (e - 52);
             y = of_int (round_half_even (x / q)) * q
         in if pow2 1024 \<le> y then None else Some y))"

text \<open>The float of a sign and an exact magnitude; overflow gives the infinity of that sign.\<close>

definition rnd :: "bool \<Rightarrow> rat \<Rightarrow> pyfloat" where
  "rnd s x = (case round_mag x of None \<Rightarrow> Inf s | Some m \<Rightarrow> Fin s m)"

text \<open>A decimal literal of the source, such as \<^verbatim>\<open>0.10\<close>: the nearest float.\<close>

definition float_lit :: "rat \<Rightarrow> pyfloat" where
  "float_lit x = rnd False x"

definition value_of :: "bool \<Rightarrow> rat \<Rightarrow> rat" where
  "value_of s m = (if s then - m else m)"

definition fneg :: "pyfloat \<Rightarrow> pyfloat" where
  "fneg a = (case a of Fin s m \<Rightarrow> Fin (\<not> s) m | Inf s \<Rightarrow> Inf (\<not> s) | NaN \<Rightarrow> NaN)"

fun fadd :: "pyfloat \<Rightarrow> pyfloat \<Rightarrow> pyfloat" where
  "fadd (Fin s1 m1) (Fin s2 m2) =
     (let v = value_of s1 m1 + value_of s2 m2
      in if v = 0 then Fin (s1 \<and> s2) 0 else rnd (v < 0) \<bar>v\<bar>)"
| "fadd (Fin s1 m1) (Inf s2) = Inf s2"
| "fadd (Inf s1) (Fin s2 m2) = Inf s1"
| "fadd (Inf s1) (Inf s2) = (if s1 = s2 then Inf s1 else NaN)"
| "fadd NaN b = NaN"
| "fadd a NaN = NaN"

definition fsub :: "pyfloat \<Rightarrow> pyfloat \<Rightarrow> pyfloat" where
  "fsub a b = fadd a (fneg b)"

fun fmul :: "pyfloat \<Rightarrow> pyfloat \<Rightarrow> pyfloat" where
  "fmul (Fin s1 m1) (Fin s2 m2) = rnd (s1 \<noteq> s2) (m1 * m2)"
| "fmul (Fin s1 m1) (Inf s2) = (if m1 = 0 then NaN else Inf (s1 \<noteq> s2))"
| "fmul (Inf s1) (Fin s2 m2) = (if m2 = 0 then NaN else Inf (s1 \<noteq> s2))"
| "fmul (Inf s1) (Inf s2) = Inf (s1 \<noteq> s2)"
| "fmul NaN b = NaN"
| "fmul a NaN = NaN"

text \<open>
  Python's float division: a zero divisor raises \<^verbatim>\<open>ZeroDivisionError\<close>, whatever the
  dividend; otherwise the IEEE quotient.
\<close>

fun fdiv :: "pyfloat \<Rightarrow> pyfloat \<Rightarrow> py_error + pyfloat" where
  "fdiv a (Fin s2 m2) =
     (if m2 = 0 then Inl ZeroDivisionError
      else case a of
             Fin s1 m1 \<Rightarrow> Inr (rnd (s1 \<noteq> s2) (m1 / m2))
           | Inf s1 \<Rightarrow> Inr (Inf (s1 \<noteq> s2))
           | NaN \<Rightarrow> Inr NaN)"
| "fdiv a (Inf s2) =
     (case a of Fin s1 m1 \<Rightarrow> Inr (Fin (s1 \<noteq> s2) 0) | Inf s1 \<Rightarrow> Inr NaN | NaN \<Rightarrow> Inr NaN)"
| "fdiv a NaN = Inr NaN"

text \<open>
  An integer operand of a mixed operation is converted first; an integer too large for a
  float raises \<^verbatim>\<open>OverflowError\<close>.
\<close>

definition float_of_int :: "int \<Rightarrow> py_error + pyfloat" where
  "float_of_int i =
     (case round_mag (of_int \<bar>i\<bar>) of None \<Rightarrow> Inl OverflowError | Some m \<Rightarrow> Inr (Fin (i < 0) m))"

definition as_float :: "pynum \<Rightarrow> py_error + pyfloat" where
  "as_float x = (case x of PyInt i \<Rightarrow> float_of_int i | PyFloat a \<Rightarrow> Inr a)"

definition float_op ::
  "(pyfloat \<Rightarrow> pyfloat \<Rightarrow> py_error + pyfloat) \<Rightarrow> pynum \<Rightarrow> pynum \<Rightarrow> py_error + pynum"
where
  "float_op f x y =
     (case as_float x of
        Inl e \<Rightarrow> Inl e
      | Inr a \<Rightarrow>
          (case as_float y of
             Inl e \<Rightarrow> Inl e
           | Inr b \<Rightarrow> (case f a b of Inl e \<Rightarrow> Inl e | Inr c \<Rightarrow> Inr (PyFloat c))))"

fun py_add :: "pynum \<Rightarrow> pynum \<Rightarrow> py_error + pynum" where
  "py_add (PyInt a) (PyInt b) = Inr (PyInt (a + b))"
| "py_add x y = float_op (\<lambda>a b. Inr (fadd a b)) x y"

fun py_sub :: "pynum \<Rightarrow> pynum \<Rightarrow> py_error + pynum" where
  "py_sub (PyInt a) (PyInt b) = Inr (PyInt (a - b))"
| "py_sub x y = float_op (\<lambda>a b. Inr (fsub a b)) x y"

fun py_mul :: "pynum \<Rightarrow> pynum \<Rightarrow> py_error + pynum" where
  "py_mul (PyInt a) (PyInt b) = Inr (PyInt (a * b))"
| "py_mul x y = float_op (\<lambda>a b. Inr (fmul a b)) x y"

text \<open>
  True division. Of two integers it is the exact quotient rounded once; a quotient too
  large for a float raises \<^verbatim>\<open>OverflowError\<close>.
\<close>

fun py_div :: "pynum \<Rightarrow> pynum \<Rightarrow> py_error + pynum" where
  "py_div (PyInt a) (PyInt b) =
     (if b = 0 then Inl ZeroDivisionError
      else case round_mag (\<bar>of_int a / of_int b\<bar>) of
             None \<Rightarrow> Inl OverflowError
           | Some m \<Rightarrow> Inr (PyFloat (Fin ((a < 0) \<noteq> (b < 0)) m)))"
| "py_div x y = float_op fdiv x y"

subsection \<open>Valuation and final calculations on Python numbers\<close>

text \<open>
  The same three pieces of code as above, lines 42--71 and 148--165, with the arithmetic the
  interpreter performs. Amounts are integers or floats as the workbook holds them, counts
  are integers, the rate is a float. An exception of an operation ends the computation.
\<close>

record num_fmt =
  num_g :: "pynum \<Rightarrow> string"
  num_2f :: "pynum \<Rightarrow> string"

fun float_type_1_loop ::
  "num_fmt \<Rightarrow> 'st printer \<Rightarrow> (pynum \<times> pynum) list \<Rightarrow> pynum \<times> pynum \<times> 'st
     \<Rightarrow> py_error + pynum \<times> pynum \<times> 'st"
where
  "float_type_1_loop N print_func [] acc = Inr acc"
| "float_type_1_loop N print_func ((c, t) # rest) (t_points, t_tasks, st) =
     (case py_mul t c of
        Inl e \<Rightarrow> Inl e
      | Inr subtotal \<Rightarrow>
          (let st' = emit print_func
                       (num_g N t @ '' PTS: '' @ num_g N c @ '' units ---> Subtotal: ''
                          @ num_g N subtotal @ '' points'') st
           in case py_add t_points subtotal of
                Inl e \<Rightarrow> Inl e
              | Inr t_points' \<Rightarrow>
                  (case py_add t_tasks c of
                     Inl e \<Rightarrow> Inl e
                   | Inr t_tasks' \<Rightarrow>
                       float_type_1_loop N print_func rest (t_points', t_tasks', st'))))"

definition float_process_type_1 ::
  "num_fmt \<Rightarrow> pynum list \<Rightarrow> pynum list \<Rightarrow> 'st printer \<Rightarrow> 'st \<Rightarrow> py_error + pynum \<times> 'st"
where
  "float_process_type_1 N counts types print_func st =
     (case float_type_1_loop N print_func (zip counts types) (PyInt 0, PyInt 0, st) of
        Inl e \<Rightarrow> Inl e
      | Inr (t_points, t_tasks, st1) \<Rightarrow>
          (case py_div t_points (PyInt 100) of
             Inl e \<Rightarrow> Inl e
           | Inr total_usd \<Rightarrow>
               (let st2 = emit print_func
                            (NL @ ''TOTAL TYPE 1: '' @ num_g N t_points @ '' PTS ---> ''
                               @ num_2f N total_usd @ '' $'') st1;
                    st3 = emit print_func (''TOTAL TASKS: '' @ num_g N t_tasks @ NL) st2
                in Inr (total_usd, st3))))"

fun float_type_2_loop ::
  "num_fmt \<Rightarrow> 'st printer \<Rightarrow> (pynum \<times> pynum) list \<Rightarrow> pynum \<times> pynum \<times> 'st
     \<Rightarrow> py_error + pynum \<times> pynum \<times> 'st"
where
  "float_type_2_loop N print_func [] acc = Inr acc"
| "float_type_2_loop N print_func ((c, t) # rest) (total_usd, t_tasks, st) =
     (case py_mul t c of
        Inl e \<Rightarrow> Inl e
      | Inr subtotal \<Rightarrow>
          (let st' = emit print_func
                       (num_g N t @ '' $: '' @ num_g N c @ '' units ---> Subtotal: ''
                          @ num_g N subtotal @ '' $'') st
           in case py_add total_usd subtotal of
                Inl e \<Rightarrow> Inl e
              | Inr total_usd' \<Rightarrow>
                  (case py_add t_tasks c of
                     Inl e \<Rightarrow> Inl e
                   | Inr t_tasks' \<Rightarrow>
                       float_type_2_loop N print_func rest (total_usd', t_tasks', st'))))"

definition float_process_type_2 ::
  "num_fmt \<Rightarrow> pynum list \<Rightarrow> pynum list \<Rightarrow> 'st printer \<Rightarrow> 'st \<Rightarrow> py_error + pynum \<times> 'st"
where
  "float_process_type_2 N counts types print_func st =
     (case float_type_2_loop N print_func (zip counts types) (PyInt 0, PyInt 0, st) of
        Inl e \<Rightarrow> Inl e
      | Inr (total_usd, t_tasks, st1) \<Rightarrow>
          (let st2 = emit print_func
                       (NL @ ''TOTAL TYPE 2: '' @ num_2f N total_usd @ '' $'') st1;
               st3 = emit print_func (''TOTAL TASKS: '' @ num_g N t_tasks @ NL) st2
           in Inr (total_usd, st3)))"

text \<open>The three constants of lines 21--23 as the floats the interpreter holds.\<close>

definition float_LIQUIDATION_RATE :: pyfloat where
  "float_LIQUIDATION_RATE = float_lit 0.75"

definition float_SERVICE_FEE_RATE :: pyfloat where
  "float_SERVICE_FEE_RATE = float_lit 0.10"

definition float_SPREAD_FACTOR :: pyfloat where
  "float_SPREAD_FACTOR = float_lit 1.824"

record float_settlement =
  f_total_raw_usd :: pynum
  f_total_usdt :: pynum
  f_comm_usdt :: pynum
  f_owner_usdt :: pynum
  f_market_rate :: pynum
  f_comm_ves :: pynum
  f_owner_ves :: pynum
  f_comm_purchasing_usd :: pynum
  f_owner_purchasing_usd :: pynum

definition and_then :: "'e + 'a \<Rightarrow> ('a \<Rightarrow> 'e + 'b) \<Rightarrow> 'e + 'b" where
  "and_then r f = (case r of Inl e \<Rightarrow> Inl e | Inr x \<Rightarrow> f x)"

definition float_final_calculations ::
  "pynum \<Rightarrow> pynum \<Rightarrow> pyfloat \<Rightarrow> py_error + float_settlement"
where
  "float_final_calculations total_val_t1 total_val_t2 bcv_rate =
     and_then (py_add total_val_t1 total_val_t2) (\<lambda>total_raw.
     and_then (py_mul total_raw (PyFloat float_LIQUIDATION_RATE)) (\<lambda>usdt.
     and_then (py_mul usdt (PyFloat float_SERVICE_FEE_RATE)) (\<lambda>c_usdt.
     and_then (py_sub usdt c_usdt) (\<lambda>o_usdt.
     and_then (py_mul (PyFloat bcv_rate) (PyFloat float_SPREAD_FACTOR)) (\<lambda>m_rate.
     and_then (py_mul c_usdt m_rate) (\<lambda>c_ves.
     and_then (py_mul o_usdt m_rate) (\<lambda>o_ves.
     and_then (py_div c_ves (PyFloat bcv_rate)) (\<lambda>c_usd.
     and_then (py_div o_ves (PyFloat bcv_rate)) (\<lambda>o_usd.
       Inr \<lparr>f_total_raw_usd = total_raw, f_total_usdt = usdt, f_comm_usdt = c_usdt,
            f_owner_usdt = o_usdt, f_market_rate = m_rate, f_comm_ves = c_ves,
            f_owner_ves = o_ves, f_comm_purchasing_usd = c_usd,
            f_owner_purchasing_usd = o_usd\<rparr>)))))))))"

subsection \<open>Exchange rate (lines 26--33)\<close>

text \<open>
  \<open>fetched\<close> is the rate the service call returns, \<open>None\<close> when the fetch or its
  conversion raised; \<open>manual\<close> is what \<^verbatim>\<open>float(input(...))\<close> gives, \<open>None\<close> when it
  raises. The fallback is read only after a failed fetch, and its failure is not caught.
\<close>

definition rate_source :: "rat option \<Rightarrow> rat option \<Rightarrow> py_error + rat" where
  "rate_source fetched manual =
     (case fetched of
        Some r \<Rightarrow> Inr r
      | None \<Rightarrow> (case manual of Some r \<Rightarrow> Inr r | None \<Rightarrow> Inl ValueError))"

subsection \<open>Aggregation (lines 36--40)\<close>

text \<open>
  \<^verbatim>\<open>Series.value_counts()\<close> is pandas: the distinct values with the number of their
  occurrences, most frequent first. The model lists the distinct values in the order of
  their first occurrence and sorts them stably by descending count; pandas leaves the
  order among equal counts open, and nothing below depends on it.
\<close>

definition value_counts :: "'a list \<Rightarrow> ('a \<times> nat) list" where
  "value_counts xs =
     sort_key (\<lambda>(v, n). - int n) (map (\<lambda>v. (v, count_list xs v)) (rev (remdups (rev xs))))"

definition get_stats :: "'a list \<Rightarrow> nat list \<times> 'a list" where
  "get_stats df_series =
     (let counts = map snd (value_counts df_series);
          types = map fst (value_counts df_series)
      in (counts, types))"

subsection \<open>Data selection (lines 88--95)\<close>

text \<open>Python's list subscript: a negative index counts from the end.\<close>

definition py_getitem :: "'a list \<Rightarrow> int \<Rightarrow> py_error + 'a" where
  "py_getitem xs i =
     (let n = int (length xs)
      in if 0 \<le> i \<and> i < n then Inr (xs ! nat i)
         else if - n \<le> i \<and> i < 0 then Inr (xs ! nat (n + i))
         else Inl IndexError)"

text \<open>
  \<^verbatim>\<open>str.replace(old, new)\<close>: every non-overlapping occurrence, left to right; an empty
  \<open>old\<close> matches before every character and at the end.
\<close>

fun replace_from :: "string \<Rightarrow> string \<Rightarrow> string \<Rightarrow> string" where
  "replace_from old new [] = []"
| "replace_from old new (c # cs) =
     (if prefix old (c # cs) then new @ replace_from old new (drop (length old - 1) cs)
      else c # replace_from old new cs)"

definition str_replace :: "string \<Rightarrow> string \<Rightarrow> string \<Rightarrow> string" where
  "str_replace old new s =
     (if old = [] then new @ concat (map (\<lambda>c. c # new) s) else replace_from old new s)"

text \<open>
  \<open>choice_input\<close> is \<^verbatim>\<open>int(input(...))\<close>, \<open>None\<close> when it raises. The bare
  \<^verbatim>\<open>except\<close> turns every exception of the block into the fatal exit. The result is
  \<open>(selected_file, account_id)\<close>.
\<close>

definition select_account :: "prims \<Rightarrow> string list \<Rightarrow> int option \<Rightarrow> fatal + string \<times> string" where
  "select_account F files choice_input =
     (case choice_input of
        None \<Rightarrow> Inl InvalidSelection
      | Some choice \<Rightarrow>
          (case py_getitem files (choice - 1) of
             Inl e \<Rightarrow> Inl InvalidSelection
           | Inr selected_file \<Rightarrow>
               Inr (selected_file, str_upper F (str_replace ''.xlsx'' [] selected_file))))"

subsection \<open>Load and clean (lines 98--106)\<close>

text \<open>A row as read from the workbook: its date cell (of a type \<open>'c\<close>) is not parsed yet.\<close>

record 'c raw_row =
  raw_date :: 'c
  raw_description :: string
  raw_platform :: string
  raw_amount :: rat

text \<open>
  What \<^verbatim>\<open>pd.read_excel\<close> and \<^verbatim>\<open>pd.to_datetime\<close> (with its default
  \<^verbatim>\<open>errors='raise'\<close>) make of one cell of the date column: a timestamp; \<^verbatim>\<open>NaT\<close>, for
  an empty cell or one of the texts pandas reads as missing, such as \<^verbatim>\<open>n/a\<close>; or an
  exception, for a cell that holds neither. pandas may read a cell in the light of the
  other cells of the column (it infers one format for all), so the reading \<open>parse\<close> is a
  parameter that is given the whole column and the cell.
\<close>

datatype parsed = Timestamp int | NaT | Unparsable

fun convert_cells :: "('c \<Rightarrow> parsed) \<Rightarrow> 'c list \<Rightarrow> py_error + int option list" where
  "convert_cells p [] = Inr []"
| "convert_cells p (c # cs) =
     (case p c of
        Unparsable \<Rightarrow> Inl ValueError
      | NaT \<Rightarrow> (case convert_cells p cs of Inl e \<Rightarrow> Inl e | Inr ds \<Rightarrow> Inr (None # ds))
      | Timestamp d \<Rightarrow>
          (case convert_cells p cs of Inl e \<Rightarrow> Inl e | Inr ds \<Rightarrow> Inr (Some d # ds)))"

definition to_datetime :: "('c list \<Rightarrow> 'c \<Rightarrow> parsed) \<Rightarrow> 'c list \<Rightarrow> py_error + int option list" where
  "to_datetime parse column = convert_cells (parse column) column"

definition set_date :: "'c raw_row \<Rightarrow> int option \<Rightarrow> int option row" where
  "set_date raw d =
     \<lparr>date = d, description = raw_description raw, platform = raw_platform raw,
      amount = raw_amount raw\<rparr>"

text \<open>
  \<open>workbook\<close> is what \<^verbatim>\<open>pd.read_excel\<close> returns, \<open>None\<close> when it raises. Every
  exception of the block ends the run. A row whose date is \<^verbatim>\<open>NaT\<close> is loaded like any
  other.
\<close>

definition load_data ::
  "('c list \<Rightarrow> 'c \<Rightarrow> parsed) \<Rightarrow> 'c raw_row list option \<Rightarrow> fatal + int option row list"
where
  "load_data parse workbook =
     (case workbook of
        None \<Rightarrow> Inl LoadingError
      | Some raws \<Rightarrow>
          (case to_datetime parse (map raw_date raws) of
             Inl e \<Rightarrow> Inl LoadingError
           | Inr ds \<Rightarrow> Inr (map2 set_date raws ds)))"

definition ignored_entries :: "string list" where
  "ignored_entries = [''Punchcard'', ''Weekly Badge Bonus'', ''Bonus Welcome Survey'']"

definition df_clean :: "'d row list \<Rightarrow> 'd row list" where
  "df_clean df = filter (\<lambda>r. description r \<notin> set ignored_entries) df"

subsection \<open>Range filter and platform split (lines 111--117)\<close>

text \<open>
  Line 111 keeps the rows of \<^verbatim>\<open>df_clean\<close> for which both comparisons of the date with
  the bounds hold. A comparison with \<^verbatim>\<open>NaT\<close> is false, so a row without a timestamp
  fails the mask whatever the bounds: \<open>dated\<close> drops these rows, and \<open>df_filtered\<close>
  applies the two comparisons to the rows that have a timestamp.
\<close>

definition dated :: "int option row list \<Rightarrow> int row list" where
  "dated df =
     concat (map (\<lambda>r. case date r of
                         None \<Rightarrow> []
                       | Some d \<Rightarrow> [\<lparr>date = d, description = description r,
                                      platform = platform r, amount = amount r\<rparr>]) df)"

definition df_filtered :: "int row list \<Rightarrow> int \<Rightarrow> int \<Rightarrow> int row list" where
  "df_filtered clean start_date end_date =
     filter (\<lambda>r. date r \<ge> start_date \<and> date r \<le> end_date) clean"

text \<open>One platform's rows, sorted by date as pandas sorts them.\<close>

definition df_platform :: "prims \<Rightarrow> string \<Rightarrow> int row list \<Rightarrow> int row list" where
  "df_platform F tag filtered = sort_values_date F (filter (\<lambda>r. platform r = tag) filtered)"

definition df_t1 :: "prims \<Rightarrow> int row list \<Rightarrow> int row list" where
  "df_t1 F filtered = df_platform F ''Digital_Assets_Type_1'' filtered"

definition df_t2 :: "prims \<Rightarrow> int row list \<Rightarrow> int row list" where
  "df_t2 F filtered = df_platform F ''Digital_Assets_Type_2'' filtered"

definition get_unique_dates :: "int row list \<Rightarrow> int list" where
  "get_unique_dates target_df =
     (if target_df = [] then [] else sort (map fst (value_counts (map date target_df))))"

subsection \<open>Audit report (lines 120--177)\<close>

text \<open>
  The report is the list of the texts passed to \<^verbatim>\<open>smart_print\<close>, in order: each call
  prints its text and writes it, with a line break, to the report file.
\<close>

definition smart_print :: "string \<Rightarrow> string list \<Rightarrow> string list" where
  "smart_print text report = report @ [text]"

definition RULE :: string where
  "RULE = ''========================================''"

definition DASHES :: string where
  "DASHES = ''----------------------------------------''"

definition report_name :: "prims \<Rightarrow> string \<Rightarrow> int \<Rightarrow> string" where
  "report_name F account_id start_date =
     ''Settlement_'' @ account_id @ ''_'' @ fmt_date F start_date @ ''.txt''"

definition header :: "prims \<Rightarrow> string \<Rightarrow> int \<Rightarrow> int \<Rightarrow> string list \<Rightarrow> string list" where
  "header F account_id start_date end_date report =
     (let r1 = smart_print RULE report;
          r2 = smart_print ''       GLOBAL ASSETS SETTLEMENT'' r1;
          r3 = smart_print (''       ACCOUNT ID: '' @ account_id) r2;
          r4 = smart_print (''       PERIOD: '' @ fmt_date F start_date @ '' TO ''
                              @ fmt_date F end_date) r3
      in smart_print (RULE @ NL) r4)"

text \<open>
  The body of the two \<^verbatim>\<open>for d in get_unique_dates(...)\<close> loops. The counts of
  \<^verbatim>\<open>get_stats\<close> are Python integers; the valuation multiplies them with the amounts,
  hence the embedding \<open>of_nat\<close>.
\<close>

definition date_block_1 :: "prims \<Rightarrow> int row list \<Rightarrow> string list \<Rightarrow> int \<Rightarrow> string list" where
  "date_block_1 F t1 report d =
     (let r1 = smart_print (DASHES @ NL @ ''DATE: '' @ fmt_date F d) report
      in case get_stats (map amount (filter (\<lambda>r. date r = d) t1)) of
           (c, t) \<Rightarrow> snd (process_type_1 F (map of_nat c) t (Some smart_print) r1))"

definition date_block_2 :: "prims \<Rightarrow> int row list \<Rightarrow> string list \<Rightarrow> int \<Rightarrow> string list" where
  "date_block_2 F t2 report d =
     (let r1 = smart_print (DASHES @ NL @ ''DATE: '' @ fmt_date F d) report
      in case get_stats (map amount (filter (\<lambda>r. date r = d) t2)) of
           (c, t) \<Rightarrow> snd (process_type_2 F (map of_nat c) t (Some smart_print) r1))"

definition provider_sections ::
  "prims \<Rightarrow> int row list \<Rightarrow> int row list \<Rightarrow> string list \<Rightarrow> string list" where
  "provider_sections F t1 t2 report =
     (let r1 = smart_print ''>>> PROVIDER: DIGITAL ASSETS TYPE 1 (POINTS)'' report;
          r2 = foldl (date_block_1 F t1) r1 (get_unique_dates t1);
          r3 = smart_print (NL @ ''>>> PROVIDER: DIGITAL ASSETS TYPE 2 (DIRECT USD)'') r2
      in foldl (date_block_2 F t2) r3 (get_unique_dates t2))"

text \<open>Lines 146--147: the grand totals, computed without an output function.\<close>

definition total_val_t1 :: "prims \<Rightarrow> int row list \<Rightarrow> string list \<Rightarrow> rat \<times> string list" where
  "total_val_t1 F t1 report =
     (if t1 \<noteq> [] then
        (case get_stats (map amount t1) of
           (c, t) \<Rightarrow> process_type_1 F (map of_nat c) t None report)
      else (0, report))"

definition total_val_t2 :: "prims \<Rightarrow> int row list \<Rightarrow> string list \<Rightarrow> rat \<times> string list" where
  "total_val_t2 F t2 report =
     (if t2 \<noteq> [] then
        (case get_stats (map amount t2) of
           (c, t) \<Rightarrow> process_type_2 F (map of_nat c) t None report)
      else (0, report))"

definition summary :: "prims \<Rightarrow> settlement \<Rightarrow> rat \<Rightarrow> string list \<Rightarrow> string list" where
  "summary F s bcv_rate report =
     (let r1 = smart_print RULE report;
          r2 = smart_print ''           FINANCIAL SUMMARY'' r1;
          r3 = smart_print RULE r2;
          r4 = smart_print (''RAW ASSETS TOTAL:      '' @ fmt_2f F (total_raw_usd s) @ '' $'') r3;
          r5 = smart_print (''LIQUIDATED (USDT):     '' @ fmt_2f F (total_usdt s) @ '' USDT'') r4;
          r6 = smart_print (''MARKET RATE APPLIED:   '' @ fmt_2f F (market_rate s)
                              @ '' VES/USDT'') r5;
          r7 = smart_print DASHES r6;
          r8 = smart_print (''YOUR FEE (10%):        '' @ fmt_2f F (comm_ves s) @ '' VES (''
                              @ fmt_2f F (comm_purchasing_usd s) @ '' $ BCV)'') r7;
          r9 = smart_print (''OWNER PAYOUT:          '' @ fmt_2f F (owner_ves s) @ '' VES (''
                              @ fmt_2f F (owner_purchasing_usd s) @ '' $ BCV)'') r8;
          r10 = smart_print (''OFFICIAL BCV RATE:     '' @ fmt_2f F bcv_rate @ '' VES'') r9
      in smart_print (RULE @ NL) r10)"

text \<open>
  How a run ends: a fatal exit before the report file is opened; an exception nobody
  catches, with the report file as it stood when one was open; or a complete report, with
  its file name.
\<close>

datatype outcome =
  Exit fatal
| Uncaught py_error "(string \<times> string list) option"
| Completed string "string list"

text \<open>The settlement of the cleaned rows: everything from line 111 on.\<close>

definition settle ::
  "prims \<Rightarrow> string \<Rightarrow> rat \<Rightarrow> int option row list \<Rightarrow> int \<Rightarrow> int \<Rightarrow> outcome"
where
  "settle F account_id bcv_rate clean start_date end_date =
     (let filtered = df_filtered (dated clean) start_date end_date;
          t1 = df_t1 F filtered;
          t2 = df_t2 F filtered;
          name = report_name F account_id start_date;
          r1 = header F account_id start_date end_date [];
          r2 = provider_sections F t1 t2 r1
      in case total_val_t1 F t1 r2 of
           (v1, r3) \<Rightarrow>
             (case total_val_t2 F t2 r3 of
                (v2, r4) \<Rightarrow>
                  (case final_calculations v1 v2 bcv_rate of
                     Inl e \<Rightarrow> Uncaught e (Some (name, r4))
                   | Inr s \<Rightarrow> Completed name (summary F s bcv_rate r4))))"

subsection \<open>The whole run\<close>

text \<open>
  What a run reads from outside: the rate service and the operator's fallback, the data
  directory and its \<^verbatim>\<open>*.xlsx\<close> names, the operator's account choice, the workbooks, and
  the two dates as \<^verbatim>\<open>pd.to_datetime(input(...))\<close> gives them (\<open>None\<close> when it raises).
\<close>

record 'c env =
  fetched_rate :: "rat option"
  manual_rate :: "rat option"
  data_dir_exists :: bool
  files :: "string list"
  choice_input :: "int option"
  read_excel :: "string \<Rightarrow> 'c raw_row list option"
  start_input :: "int option"
  end_input :: "int option"

definition run :: "prims \<Rightarrow> ('c list \<Rightarrow> 'c \<Rightarrow> parsed) \<Rightarrow> 'c env \<Rightarrow> outcome" where
  "run F parse E =
     (case rate_source (fetched_rate E) (manual_rate E) of
        Inl e \<Rightarrow> Uncaught e None
      | Inr bcv_rate \<Rightarrow>
          if \<not> data_dir_exists E then Exit DataDirNotFound
          else if files E = [] then Exit NoDatasets
          else
            (case select_account F (files E) (choice_input E) of
               Inl f \<Rightarrow> Exit f
             | Inr (selected_file, account_id) \<Rightarrow>
                 (case load_data parse (read_excel E selected_file) of
                    Inl f \<Rightarrow> Exit f
                  | Inr df \<Rightarrow>
                      (case start_input E of
                         None \<Rightarrow> Uncaught ValueError None
                       | Some start_date \<Rightarrow>
                           (case end_input E of
                              None \<Rightarrow> Uncaught ValueError None
                            | Some end_date \<Rightarrow>
                                settle F account_id bcv_rate (df_clean df)
                                  start_date end_date)))))"

text \<open>Whether a run left a report file behind.\<close>

fun report_written :: "outcome \<Rightarrow> bool" where
  "report_written (Exit f) = False"
| "report_written (Uncaught e None) = False"
| "report_written (Uncaught e (Some r)) = True"
| "report_written (Completed name r) = True"

section \<open>Properties\<close>

subsection \<open>Evaluating the float operations\<close>

lemma bit_length_0: "bit_length 0 = 0"
  by (simp add: bit_length.simps)

lemma bit_length_1: "bit_length 1 = 1"
  by (simp add: bit_length.simps [of 1] bit_length_0)

lemma bit_length_numeral: "bit_length (numeral n) = 1 + bit_length (numeral n div 2)"
  by (subst bit_length.simps) simp

lemma floor_rat_numeral: "\<lfloor>numeral a / numeral b :: rat\<rfloor> = numeral a div numeral b"
  by (metis floor_divide_of_int_eq of_int_numeral)

lemma ceiling_rat_numeral: "\<lceil>numeral a / numeral b :: rat\<rceil> = - (- numeral a div numeral b)"
  using ceiling_divide_eq_div [of "numeral a" "numeral b", where ?'a = rat] by simp

lemma floor_rat_one_numeral: "\<lfloor>1 / numeral b :: rat\<rfloor> = 1 div numeral b"
  using floor_divide_of_int_eq [of 1 "numeral b", where ?'a = rat] by simp

lemma ceiling_rat_one_numeral: "\<lceil>1 / numeral b :: rat\<rceil> = - (- 1 div numeral b)"
  using ceiling_divide_eq_div [of 1 "numeral b", where ?'a = rat] by simp

lemmas float_eval =
  rnd_def round_mag_def exponent_def round_half_even_def pow2_def Let_def
  bit_length_0 bit_length_1 bit_length_numeral float_lit_def value_of_def
  floor_rat_numeral ceiling_rat_numeral floor_rat_one_numeral ceiling_rat_one_numeral
  fsub_def fneg_def

text \<open>The constants and the floats of the scenario, as the rationals they are.\<close>

lemma float_constants:
  "float_LIQUIDATION_RATE = Fin False (3 / 4)"
  "float_SERVICE_FEE_RATE = Fin False (3602879701896397 / 36028797018963968)"
  "float_SPREAD_FACTOR = Fin False (8214565720323785 / 4503599627370496)"
  by (simp_all add: float_LIQUIDATION_RATE_def float_SERVICE_FEE_RATE_def
      float_SPREAD_FACTOR_def float_eval)

lemma float_chain_36:
  "float_final_calculations (PyFloat (Fin False 60)) (PyFloat (Fin False 40)) (Fin False 36) =
     Inr \<lparr>f_total_raw_usd = PyFloat (Fin False 100), f_total_usdt = PyFloat (Fin False 75),
          f_comm_usdt = PyFloat (Fin False (15 / 2)), f_owner_usdt = PyFloat (Fin False (135 / 2)),
          f_market_rate = PyFloat (Fin False (4620693217682129 / 70368744177664)),
          f_comm_ves = PyFloat (Fin False (1082974972894249 / 2199023255552)),
          f_owner_ves = PyFloat (Fin False (609173422253015 / 137438953472)),
          f_comm_purchasing_usd = PyFloat (Fin False (1925288840700887 / 140737488355328)),
          f_owner_purchasing_usd = PyFloat (Fin False (8663799783153991 / 70368744177664))\<rparr>"
  by (simp add: float_final_calculations_def and_then_def float_op_def as_float_def
      float_constants float_eval)

lemma float_chain_40:
  "float_final_calculations (PyFloat (Fin False 60)) (PyFloat (Fin False 40)) (Fin False 40) =
     Inr \<lparr>f_total_raw_usd = PyFloat (Fin False 100), f_total_usdt = PyFloat (Fin False 75),
          f_comm_usdt = PyFloat (Fin False (15 / 2)), f_owner_usdt = PyFloat (Fin False (135 / 2)),
          f_market_rate = PyFloat (Fin False (2567051787601183 / 35184372088832)),
          f_comm_ves = PyFloat (Fin False (2406611050876109 / 4398046511104)),
          f_owner_ves = PyFloat (Fin False (5414874864471245 / 1099511627776)),
          f_comm_purchasing_usd = PyFloat (Fin False (7701155362803549 / 562949953421312)),
          f_owner_purchasing_usd = PyFloat (Fin False (1082974972894249 / 8796093022208))\<rparr>"
  by (simp add: float_final_calculations_def and_then_def float_op_def as_float_def
      float_constants float_eval)

lemma float_chain_zero:
  "float_final_calculations (PyFloat (Fin False 60)) (PyFloat (Fin False 40)) (Fin False 0) =
     Inl ZeroDivisionError"
  by (simp add: float_final_calculations_def and_then_def float_op_def as_float_def
      float_constants float_eval)

lemma float_decimals:
  "float_lit 65.664 = Fin False (4620693217682129 / 70368744177664)"
  "float_lit 492.48 = Fin False (1082974972894249 / 2199023255552)"
  "float_lit 4432.32 = Fin False (609173422253015 / 137438953472)"
  "float_lit 13.68 = Fin False (1925288840700887 / 140737488355328)"
  "float_lit 123.12 = Fin False (1082974972894249 / 8796093022208)"
  "float_lit 36.0 = Fin False 36"
  "float_lit 40.0 = Fin False 40"
  by (simp_all add: float_eval)

subsection \<open>The settlement chain\<close>

text \<open>The exact reading first.\<close>

lemma py_truediv_nonzero: "b \<noteq> 0 \<Longrightarrow> py_truediv a b = Inr (a / b)"
  by (simp add: py_truediv_def)

text \<open>With a nonzero rate the chain returns, and its result is the nine variables of the code.\<close>

lemma final_calculations_Inr:
  "bcv_rate \<noteq> 0 \<Longrightarrow>
   final_calculations v1 v2 bcv_rate =
     Inr \<lparr>total_raw_usd = v1 + v2,
          total_usdt = (v1 + v2) * LIQUIDATION_RATE,
          comm_usdt = (v1 + v2) * LIQUIDATION_RATE * SERVICE_FEE_RATE,
          owner_usdt = (v1 + v2) * LIQUIDATION_RATE
                         - (v1 + v2) * LIQUIDATION_RATE * SERVICE_FEE_RATE,
          market_rate = bcv_rate * SPREAD_FACTOR,
          comm_ves = (v1 + v2) * LIQUIDATION_RATE * SERVICE_FEE_RATE * (bcv_rate * SPREAD_FACTOR),
          owner_ves = ((v1 + v2) * LIQUIDATION_RATE
                         - (v1 + v2) * LIQUIDATION_RATE * SERVICE_FEE_RATE)
                        * (bcv_rate * SPREAD_FACTOR),
          comm_purchasing_usd =
            (v1 + v2) * LIQUIDATION_RATE * SERVICE_FEE_RATE * (bcv_rate * SPREAD_FACTOR)
              / bcv_rate,
          owner_purchasing_usd =
            ((v1 + v2) * LIQUIDATION_RATE - (v1 + v2) * LIQUIDATION_RATE * SERVICE_FEE_RATE)
              * (bcv_rate * SPREAD_FACTOR) / bcv_rate\<rparr>"
  by (simp add: final_calculations_def Let_def py_truediv_nonzero)

text \<open>With a zero rate the first division raises, after the header and the per-date
  sections of the report have been written.\<close>

lemma final_calculations_zero: "final_calculations v1 v2 0 = Inl ZeroDivisionError"
  by (simp add: final_calculations_def Let_def py_truediv_def)

text \<open>
  C1, as stated: applied to a raw total of 100 and the rate 36.0, the calculator yields the
  nine listed figures, the last of them 123.12; and it yields a result for every rate. In
  the arithmetic of the interpreter the first eight figures are 100, 75, 7.5, 67.5 and the
  floats nearest to 65.664, 492.48, 4432.32 and 13.68, but the owner's purchasing-power
  figure is \<open>8663799783153991 / 2 ^ 46\<close>, printed \<^verbatim>\<open>123.11999999999999\<close>: it is neither
  123.12 nor the float nearest to 123.12. With the rate 0 the division of line 164 raises
  and there is no result.
\<close>

theorem settlement_chain_counterexample:
  "float_final_calculations (PyFloat (Fin False 60)) (PyFloat (Fin False 40)) (float_lit 36.0) =
     Inr \<lparr>f_total_raw_usd = PyFloat (Fin False 100), f_total_usdt = PyFloat (Fin False 75),
          f_comm_usdt = PyFloat (Fin False 7.5), f_owner_usdt = PyFloat (Fin False 67.5),
          f_market_rate = PyFloat (float_lit 65.664), f_comm_ves = PyFloat (float_lit 492.48),
          f_owner_ves = PyFloat (float_lit 4432.32),
          f_comm_purchasing_usd = PyFloat (float_lit 13.68),
          f_owner_purchasing_usd = PyFloat (Fin False (8663799783153991 / 70368744177664))\<rparr>
   \<and> Fin False (8663799783153991 / 70368744177664) \<noteq> float_lit 123.12
   \<and> (8663799783153991 / 70368744177664 :: rat) \<noteq> 123.12
   \<and> float_final_calculations (PyFloat (Fin False 60)) (PyFloat (Fin False 40)) (float_lit 0)
       = Inl ZeroDivisionError"
  using float_chain_36 float_chain_zero
  by (simp add: float_decimals) (simp add: float_eval)

text \<open>
  C1, amended. In exact arithmetic and for a nonzero official rate, the settlement
  calculator, applied to the two valuation totals, returns a result in which the raw total
  is their sum, the liquidated amount is the raw total times 0.75, the commission is the
  liquidated amount times 0.10, the owner's share is the liquidated amount minus the
  commission, the market rate is the official rate times 1.824, the two VES amounts are the
  two USDT amounts times the market rate, and the two purchasing-power amounts are the VES
  amounts divided by the official rate. For a raw total of 100 and an official rate of 36.0
  the figures are 75.00, 7.50, 67.50, 65.664, 492.48, 4432.32, 13.68 and 123.12.
\<close>

theorem settlement_chain:
  "(bcv_rate \<noteq> 0 \<longrightarrow>
      (\<exists>s. final_calculations v1 v2 bcv_rate = Inr s
         \<and> total_raw_usd s = v1 + v2
         \<and> total_usdt s = total_raw_usd s * 0.75
         \<and> comm_usdt s = total_usdt s * 0.10
         \<and> owner_usdt s = total_usdt s - comm_usdt s
         \<and> market_rate s = bcv_rate * 1.824
         \<and> comm_ves s = comm_usdt s * market_rate s
         \<and> owner_ves s = owner_usdt s * market_rate s
         \<and> comm_purchasing_usd s = comm_ves s / bcv_rate
         \<and> owner_purchasing_usd s = owner_ves s / bcv_rate))
   \<and> (v1 + v2 = 100 \<longrightarrow>
        final_calculations v1 v2 36.0 =
          Inr \<lparr>total_raw_usd = 100, total_usdt = 75.00, comm_usdt = 7.50, owner_usdt = 67.50,
               market_rate = 65.664, comm_ves = 492.48, owner_ves = 4432.32,
               comm_purchasing_usd = 13.68, owner_purchasing_usd = 123.12\<rparr>)"
proof (intro conjI impI)
  assume nz: "bcv_rate \<noteq> 0"
  show "\<exists>s. final_calculations v1 v2 bcv_rate = Inr s
         \<and> total_raw_usd s = v1 + v2
         \<and> total_usdt s = total_raw_usd s * 0.75
         \<and> comm_usdt s = total_usdt s * 0.10
         \<and> owner_usdt s = total_usdt s - comm_usdt s
         \<and> market_rate s = bcv_rate * 1.824
         \<and> comm_ves s = comm_usdt s * market_rate s
         \<and> owner_ves s = owner_usdt s * market_rate s
         \<and> comm_purchasing_usd s = comm_ves s / bcv_rate
         \<and> owner_purchasing_usd s = owner_ves s / bcv_rate"
    by (simp add: final_calculations_Inr [OF nz] LIQUIDATION_RATE_def SERVICE_FEE_RATE_def
        SPREAD_FACTOR_def)
next
  assume total: "v1 + v2 = 100"
  show "final_calculations v1 v2 36.0 =
          Inr \<lparr>total_raw_usd = 100, total_usdt = 75.00, comm_usdt = 7.50, owner_usdt = 67.50,
               market_rate = 65.664, comm_ves = 492.48, owner_ves = 4432.32,
               comm_purchasing_usd = 13.68, owner_purchasing_usd = 123.12\<rparr>"
    using final_calculations_Inr [of 36 v1 v2]
    by (simp add: total LIQUIDATION_RATE_def SERVICE_FEE_RATE_def SPREAD_FACTOR_def)
qed

theorem settlement_chain_witness:
  "final_calculations 60 40 36 =
     Inr \<lparr>total_raw_usd = 100, total_usdt = 75, comm_usdt = 15 / 2, owner_usdt = 135 / 2,
          market_rate = 8208 / 125, comm_ves = 12312 / 25, owner_ves = 110808 / 25,
          comm_purchasing_usd = 342 / 25, owner_purchasing_usd = 3078 / 25\<rparr>
   \<and> (36 :: rat) \<noteq> 0 \<and> (60 :: rat) + 40 = 100"
  using settlement_chain [of 36 60 40] by simp

text \<open>
  C3. In every settlement result, the commission and the owner's share add up to the
  liquidated amount, and the owner's VES amount divided by the official rate is the owner's
  purchasing-power amount. (Exact arithmetic.)
\<close>

theorem settlement_invariants:
  "final_calculations v1 v2 bcv_rate = Inr s \<Longrightarrow>
     comm_usdt s + owner_usdt s = total_usdt s
     \<and> owner_ves s / bcv_rate = owner_purchasing_usd s"
  by (cases "bcv_rate = 0") (auto simp: final_calculations_zero final_calculations_Inr)

theorem settlement_invariants_witness:
  "\<exists>s. final_calculations 60 40 36 = Inr s
      \<and> comm_usdt s + owner_usdt s = total_usdt s
      \<and> owner_ves s / 36 = owner_purchasing_usd s
      \<and> total_usdt s = 75"
proof -
  have e: "final_calculations 60 40 36 =
     Inr \<lparr>total_raw_usd = 100, total_usdt = 75, comm_usdt = 15 / 2, owner_usdt = 135 / 2,
          market_rate = 8208 / 125, comm_ves = 12312 / 25, owner_ves = 110808 / 25,
          comm_purchasing_usd = 342 / 25, owner_purchasing_usd = 3078 / 25\<rparr>"
    using final_calculations_Inr [of 36 60 40]
    by (simp add: LIQUIDATION_RATE_def SERVICE_FEE_RATE_def SPREAD_FACTOR_def)
  from settlement_invariants [OF e] e show ?thesis by simp
qed

text \<open>
  C10, as stated: for every nonzero rate the commission's purchasing-power figure is the
  commission in USDT times 1.824, whatever the rate. In the arithmetic of the interpreter,
  with a raw total of 100 the commission is 7.5 USDT and 7.5 times 1.824 is the float
  nearest to 13.68; the rate 36.0 gives that float as purchasing-power figure, the rate 40.0
  gives the next float above it, printed \<^verbatim>\<open>13.680000000000001\<close>.
\<close>

theorem purchasing_power_counterexample:
  "float_final_calculations (PyFloat (Fin False 60)) (PyFloat (Fin False 40)) (float_lit 40.0) =
     Inr \<lparr>f_total_raw_usd = PyFloat (Fin False 100), f_total_usdt = PyFloat (Fin False 75),
          f_comm_usdt = PyFloat (Fin False 7.5), f_owner_usdt = PyFloat (Fin False 67.5),
          f_market_rate = PyFloat (Fin False (2567051787601183 / 35184372088832)),
          f_comm_ves = PyFloat (Fin False (2406611050876109 / 4398046511104)),
          f_owner_ves = PyFloat (Fin False (5414874864471245 / 1099511627776)),
          f_comm_purchasing_usd = PyFloat (Fin False (7701155362803549 / 562949953421312)),
          f_owner_purchasing_usd = PyFloat (Fin False (1082974972894249 / 8796093022208))\<rparr>
   \<and> py_mul (PyFloat (Fin False 7.5)) (PyFloat float_SPREAD_FACTOR)
       = Inr (PyFloat (Fin False (1925288840700887 / 140737488355328)))
   \<and> (7701155362803549 / 562949953421312 :: rat) \<noteq> 1925288840700887 / 140737488355328
   \<and> float_final_calculations (PyFloat (Fin False 60)) (PyFloat (Fin False 40)) (float_lit 36.0) =
     Inr \<lparr>f_total_raw_usd = PyFloat (Fin False 100), f_total_usdt = PyFloat (Fin False 75),
          f_comm_usdt = PyFloat (Fin False 7.5), f_owner_usdt = PyFloat (Fin False 67.5),
          f_market_rate = PyFloat (Fin False (4620693217682129 / 70368744177664)),
          f_comm_ves = PyFloat (Fin False (1082974972894249 / 2199023255552)),
          f_owner_ves = PyFloat (Fin False (609173422253015 / 137438953472)),
          f_comm_purchasing_usd = PyFloat (Fin False (1925288840700887 / 140737488355328)),
          f_owner_purchasing_usd = PyFloat (Fin False (8663799783153991 / 70368744177664))\<rparr>"
  using float_chain_36 float_chain_40
  by (simp add: float_decimals) (simp add: float_op_def as_float_def float_constants float_eval)

text \<open>
  C10, amended. In exact arithmetic, for every nonzero official rate the settlement returns,
  and its purchasing-power figures are the USDT figures times 1.824: the official rate
  cancels. The USDT figures are 0.075 and 0.675 of the raw total, so neither figure depends
  on the rate.
\<close>

theorem purchasing_power_rate_free:
  assumes nz: "bcv_rate \<noteq> 0"
  shows "\<exists>s. final_calculations v1 v2 bcv_rate = Inr s
        \<and> comm_purchasing_usd s = comm_usdt s * 1.824
        \<and> owner_purchasing_usd s = owner_usdt s * 1.824
        \<and> comm_usdt s = (v1 + v2) * 0.075
        \<and> owner_usdt s = (v1 + v2) * 0.675"
proof -
  obtain s where s: "final_calculations v1 v2 bcv_rate = Inr s"
    and cu: "comm_usdt s = (v1 + v2) * LIQUIDATION_RATE * SERVICE_FEE_RATE"
    and ou: "owner_usdt s = (v1 + v2) * LIQUIDATION_RATE
                              - (v1 + v2) * LIQUIDATION_RATE * SERVICE_FEE_RATE"
    and cp: "comm_purchasing_usd s = comm_usdt s * (bcv_rate * SPREAD_FACTOR) / bcv_rate"
    and op: "owner_purchasing_usd s = owner_usdt s * (bcv_rate * SPREAD_FACTOR) / bcv_rate"
    using final_calculations_Inr [OF nz, of v1 v2] by simp
  have "comm_purchasing_usd s = comm_usdt s * 1.824"
    using nz by (simp add: cp SPREAD_FACTOR_def)
  moreover have "owner_purchasing_usd s = owner_usdt s * 1.824"
    using nz by (simp add: op SPREAD_FACTOR_def)
  moreover have "comm_usdt s = (v1 + v2) * 0.075"
    by (simp add: cu LIQUIDATION_RATE_def SERVICE_FEE_RATE_def)
  moreover have "owner_usdt s = (v1 + v2) * 0.675"
    by (simp add: ou LIQUIDATION_RATE_def SERVICE_FEE_RATE_def algebra_simps)
  ultimately show ?thesis
    using s by blast
qed

theorem purchasing_power_rate_free_witness:
  "(\<exists>s. final_calculations 60 40 36 = Inr s
      \<and> comm_purchasing_usd s = 13.68 \<and> owner_purchasing_usd s = 123.12)
   \<and> (\<exists>s. final_calculations 60 40 40 = Inr s
      \<and> comm_purchasing_usd s = 13.68 \<and> owner_purchasing_usd s = 123.12)"
  using purchasing_power_rate_free [of 36 60 40] purchasing_power_rate_free [of 40 60 40]
  by auto

subsection \<open>Valuation\<close>

lemma type_1_loop_total:
  "fst (type_1_loop F pf ps (t_points, t_tasks, st)) = t_points + (\<Sum>(c, t)\<leftarrow>ps. t * c)"
  by (induction ps arbitrary: t_points t_tasks st) (auto simp: Let_def)

lemma type_2_loop_total:
  "fst (type_2_loop F pf ps (total_usd, t_tasks, st)) = total_usd + (\<Sum>(c, t)\<leftarrow>ps. t * c)"
  by (induction ps arbitrary: total_usd t_tasks st) (auto simp: Let_def)

lemma type_1_loop_silent:
  "snd (snd (type_1_loop F None ps (t_points, t_tasks, st))) = st"
  by (induction ps arbitrary: t_points t_tasks) (auto simp: Let_def emit_def)

lemma type_2_loop_silent:
  "snd (snd (type_2_loop F None ps (total_usd, t_tasks, st))) = st"
  by (induction ps arbitrary: total_usd t_tasks) (auto simp: Let_def emit_def)

lemma process_type_1_total:
  "fst (process_type_1 F counts types pf st) = (\<Sum>(c, t)\<leftarrow>zip counts types. t * c) / 100"
  using type_1_loop_total [of F pf "zip counts types" 0 0 st]
  by (auto simp: process_type_1_def Let_def split: prod.splits)

lemma process_type_2_total:
  "fst (process_type_2 F counts types pf st) = (\<Sum>(c, t)\<leftarrow>zip counts types. t * c)"
  using type_2_loop_total [of F pf "zip counts types" 0 0 st]
  by (auto simp: process_type_2_def Let_def split: prod.splits)

lemma process_type_1_silent: "snd (process_type_1 F counts types None st) = st"
  using type_1_loop_silent [of F "zip counts types" 0 0 st]
  by (auto simp: process_type_1_def Let_def emit_def split: prod.splits)

lemma process_type_2_silent: "snd (process_type_2 F counts types None st) = st"
  using type_2_loop_silent [of F "zip counts types" 0 0 st]
  by (auto simp: process_type_2_def Let_def emit_def split: prod.splits)

lemma sum_zip_pairs:
  "(\<Sum>(c, t)\<leftarrow>zip (map snd ps) (map fst ps). t * c) = (\<Sum>(a, c)\<leftarrow>ps. a * (c :: rat))"
  by (induction ps) auto

text \<open>
  In the arithmetic of the interpreter, integer amounts are summed without error: the
  Type 2 total is the exact sum, and the Type 1 total is that sum divided by 100 and rounded
  once.
\<close>

lemma float_type_1_loop_ints:
  "\<exists>st'. float_type_1_loop N pf (map (\<lambda>(a, c). (PyInt c, PyInt a)) ps) (PyInt x, PyInt k, st)
     = Inr (PyInt (x + (\<Sum>(a, c)\<leftarrow>ps. a * c)), PyInt (k + (\<Sum>(a, c)\<leftarrow>ps. c)), st')"
proof (induction ps arbitrary: x k st)
  case Nil
  show ?case by simp
next
  case (Cons p ps)
  obtain a c where p: "p = (a, c)" by (cases p)
  show ?case
    using Cons.IH [of "x + a * c" "k + c"] by (simp add: p Let_def add.assoc)
qed

lemma float_type_2_loop_ints:
  "\<exists>st'. float_type_2_loop N pf (map (\<lambda>(a, c). (PyInt c, PyInt a)) ps) (PyInt x, PyInt k, st)
     = Inr (PyInt (x + (\<Sum>(a, c)\<leftarrow>ps. a * c)), PyInt (k + (\<Sum>(a, c)\<leftarrow>ps. c)), st')"
proof (induction ps arbitrary: x k st)
  case Nil
  show ?case by simp
next
  case (Cons p ps)
  obtain a c where p: "p = (a, c)" by (cases p)
  show ?case
    using Cons.IH [of "x + a * c" "k + c"] by (simp add: p Let_def add.assoc)
qed

lemma zip_ints:
  "zip (map (\<lambda>(a, c). PyInt c) ps) (map (\<lambda>(a, c). PyInt a) ps)
     = map (\<lambda>(a, c). (PyInt c, PyInt a)) ps"
  by (induction ps) auto

lemma float_process_type_2_ints:
  "\<exists>st'. float_process_type_2 N (map (\<lambda>(a, c). PyInt c) ps) (map (\<lambda>(a, c). PyInt a) ps) pf st
     = Inr (PyInt (\<Sum>(a, c)\<leftarrow>ps. a * c), st')"
proof -
  obtain st1 where
    "float_type_2_loop N pf (map (\<lambda>(a, c). (PyInt c, PyInt a)) ps) (PyInt 0, PyInt 0, st)
       = Inr (PyInt (\<Sum>(a, c)\<leftarrow>ps. a * c), PyInt (\<Sum>(a, c)\<leftarrow>ps. c), st1)"
    using float_type_2_loop_ints [of N pf ps 0 0 st] by auto
  then show ?thesis
    by (simp add: float_process_type_2_def zip_ints)
qed

lemma float_process_type_1_ints:
  "\<exists>st'. float_process_type_1 N (map (\<lambda>(a, c). PyInt c) ps) (map (\<lambda>(a, c). PyInt a) ps) pf st
     = (case py_div (PyInt (\<Sum>(a, c)\<leftarrow>ps. a * c)) (PyInt 100) of
          Inl e \<Rightarrow> Inl e
        | Inr total_usd \<Rightarrow> Inr (total_usd, st'))"
proof -
  obtain st1 where
    "float_type_1_loop N pf (map (\<lambda>(a, c). (PyInt c, PyInt a)) ps) (PyInt 0, PyInt 0, st)
       = Inr (PyInt (\<Sum>(a, c)\<leftarrow>ps. a * c), PyInt (\<Sum>(a, c)\<leftarrow>ps. c), st1)"
    using float_type_1_loop_ints [of N pf ps 0 0 st] by auto
  then show ?thesis
    by (cases "py_div (PyInt (\<Sum>(a, c)\<leftarrow>ps. a * c)) (PyInt 100)")
       (simp_all add: float_process_type_1_def zip_ints Let_def del: py_div.simps)
qed

text \<open>
  C2, as stated: for non-negative pairs the Type 1 valuation returns the sum of amount times
  count divided by 100, and the Type 2 valuation the sum. In the arithmetic of the
  interpreter, three units of the amount 33.33 give the Type 1 total
  \<open>9006298534815517 / 2 ^ 53\<close>, printed \<^verbatim>\<open>0.9998999999999999\<close>: it is not 0.9999, not
  the float nearest to 0.9999, and not the exact quotient for the float amount either. The
  amounts \<^verbatim>\<open>1e16\<close>, 1 and 1, one unit each, give the Type 2 total \<^verbatim>\<open>1e16\<close>, although
  their sum is a float itself.
\<close>

theorem valuation_totals_counterexample:
  "float_process_type_1 \<lparr>num_g = (\<lambda>x. []), num_2f = (\<lambda>x. [])\<rparr>
      [PyInt 3] [PyFloat (float_lit 33.33)] None ()
     = Inr (PyFloat (Fin False (9006298534815517 / 9007199254740992)), ())
   \<and> (9006298534815517 / 9007199254740992 :: rat) \<noteq> 33.33 * 3 / 100
   \<and> Fin False (9006298534815517 / 9007199254740992) \<noteq> float_lit (33.33 * 3 / 100)
   \<and> float_lit 33.33 = Fin False (2345390243441541 / 70368744177664)
   \<and> (9006298534815517 / 9007199254740992 :: rat) \<noteq> 2345390243441541 / 70368744177664 * 3 / 100
   \<and> float_process_type_2 \<lparr>num_g = (\<lambda>x. []), num_2f = (\<lambda>x. [])\<rparr>
      [PyInt 1, PyInt 1, PyInt 1]
      [PyFloat (float_lit 10000000000000000), PyFloat (float_lit 1), PyFloat (float_lit 1)] None ()
     = Inr (PyFloat (Fin False 10000000000000000), ())
   \<and> float_lit (10000000000000000 * 1 + 1 * 1 + 1 * 1) = Fin False 10000000000000002
   \<and> float_lit 10000000000000000 = Fin False 10000000000000000"
  by (simp add: float_process_type_1_def float_process_type_2_def float_op_def as_float_def
      float_of_int_def emit_def float_eval)

text \<open>
  C2, amended. In exact arithmetic, for every list of (amount, count) pairs, non-negative
  or not, the Type 1 valuation of its counts and amounts returns the sum of amount times
  count, divided by 100, and the Type 2 valuation returns the sum of amount times count;
  with or without an output function.
\<close>

theorem valuation_totals:
  "fst (process_type_1 F (map snd ps) (map fst ps) print_func st)
     = (\<Sum>(amount, count)\<leftarrow>ps. amount * count) / 100
   \<and> fst (process_type_2 F (map snd ps) (map fst ps) print_func st)
     = (\<Sum>(amount, count)\<leftarrow>ps. amount * count)"
  by (simp add: process_type_1_total process_type_2_total sum_zip_pairs)

theorem valuation_totals_witness:
  "fst (process_type_1
          \<lparr>fmt_g = (\<lambda>x. []), fmt_2f = (\<lambda>x. []), fmt_date = (\<lambda>d. []), str_upper = (\<lambda>s. s),
            sort_values_date = sort_key date\<rparr>
          [2] [50] (Some smart_print) []) = 1
   \<and> fst (process_type_2
          \<lparr>fmt_g = (\<lambda>x. []), fmt_2f = (\<lambda>x. []), fmt_date = (\<lambda>d. []), str_upper = (\<lambda>s. s),
            sort_values_date = sort_key date\<rparr>
          [2] [50] (Some smart_print) []) = 100"
  using valuation_totals [of _ "[(50, 2)]" "Some smart_print" "[]"] by simp

text \<open>
  C9. For all counts and types, the total the Type 1 valuation returns is the same with an
  output function as without one, and so is the total of the Type 2 valuation; without an
  output function, the output state is returned as it was: nothing is emitted.
\<close>

theorem valuation_output_independent:
  "fst (process_type_1 F counts types (Some p) st) = fst (process_type_1 F counts types None st')
   \<and> fst (process_type_2 F counts types (Some p) st) = fst (process_type_2 F counts types None st')
   \<and> snd (process_type_1 F counts types None st') = st'
   \<and> snd (process_type_2 F counts types None st') = st'"
  by (simp add: process_type_1_total process_type_2_total process_type_1_silent
      process_type_2_silent)

theorem valuation_output_independent_witness:
  "fst (process_type_1
          \<lparr>fmt_g = (\<lambda>x. []), fmt_2f = (\<lambda>x. []), fmt_date = (\<lambda>d. []), str_upper = (\<lambda>s. s),
            sort_values_date = sort_key date\<rparr>
          [2, 1] [50, 20] (Some smart_print) [])
     = fst (process_type_1
          \<lparr>fmt_g = (\<lambda>x. []), fmt_2f = (\<lambda>x. []), fmt_date = (\<lambda>d. []), str_upper = (\<lambda>s. s),
            sort_values_date = sort_key date\<rparr>
          [2, 1] [50, 20] None [''kept''])
   \<and> snd (process_type_2
          \<lparr>fmt_g = (\<lambda>x. []), fmt_2f = (\<lambda>x. []), fmt_date = (\<lambda>d. []), str_upper = (\<lambda>s. s),
            sort_values_date = sort_key date\<rparr>
          [2, 1] [50, 20] None [''kept'']) = [''kept'']"
  using valuation_output_independent [of _ "[2, 1]" "[50, 20]" smart_print "[]" "[''kept'']"]
  by simp


subsection \<open>Cleaning and the range filter\<close>

text \<open>
  C4, as stated: for every start and end date, a row whose date equals the start date or
  the end date is kept. With the start after the end, the row dated at the start is in the
  cleaned rows and is not kept.
\<close>

theorem range_filter_counterexample:
  "date \<lparr>date = 10 :: int, description = ''Survey'', platform = ''Digital_Assets_Type_1'',
          amount = 50\<rparr>
     = 10
   \<and> \<lparr>date = 10, description = ''Survey'', platform = ''Digital_Assets_Type_1'', amount = 50\<rparr>
       \<notin> set (df_filtered
                [\<lparr>date = 10, description = ''Survey'', platform = ''Digital_Assets_Type_1'',
                  amount = 50\<rparr>] 10 1)"
  by (simp add: df_filtered_def)

text \<open>
  C4, amended. When the start date is not after the end date, a cleaned row whose date
  equals the start date or the end date is kept; and, for all dates, every kept row is a
  cleaned row whose date lies between the start date and the end date, bounds included.
\<close>

theorem range_filter_inclusive:
  "(start_date \<le> end_date \<longrightarrow> r \<in> set clean \<longrightarrow> date r = start_date \<or> date r = end_date \<longrightarrow>
      r \<in> set (df_filtered clean start_date end_date))
   \<and> (r \<in> set (df_filtered clean start_date end_date) \<longrightarrow>
        r \<in> set clean \<and> start_date \<le> date r \<and> date r \<le> end_date)"
  by (auto simp: df_filtered_def)

theorem range_filter_inclusive_witness:
  "\<lparr>date = 1, description = ''Survey'', platform = ''Digital_Assets_Type_1'', amount = 50\<rparr>
       \<in> set (df_filtered
                [\<lparr>date = 1, description = ''Survey'', platform = ''Digital_Assets_Type_1'',
                  amount = 50\<rparr>] 1 10)
   \<and> (1 :: int) \<le> 10"
  using range_filter_inclusive [of 1 10
      "\<lparr>date = 1, description = ''Survey'', platform = ''Digital_Assets_Type_1'', amount = 50\<rparr>"
      "[\<lparr>date = 1, description = ''Survey'', platform = ''Digital_Assets_Type_1'', amount = 50\<rparr>]"]
  by simp



subsection \<open>Aggregation\<close>

lemma fst_value_counts_set: "set (map fst (value_counts xs)) = set xs"
  by (simp add: value_counts_def image_image)

lemma fst_value_counts_distinct: "distinct (map fst (value_counts xs))"
proof -
  let ?ys = "map (\<lambda>v. (v, count_list xs v)) (rev (remdups (rev xs)))"
  have "map fst ?ys = rev (remdups (rev xs))"
    by (simp add: comp_def)
  then have "distinct (map fst ?ys)"
    by simp
  then have "distinct ?ys \<and> inj_on fst (set ?ys)"
    by (simp only: distinct_map)
  then have "distinct (sort_key (\<lambda>(v, n). - int n) ?ys)
      \<and> inj_on fst (set (sort_key (\<lambda>(v, n). - int n) ?ys))"
    by simp
  then show ?thesis
    unfolding value_counts_def by (simp only: distinct_map)
qed

lemma snd_value_counts: "p \<in> set (value_counts xs) \<Longrightarrow> snd p = count_list xs (fst p)"
  by (auto simp: value_counts_def)

lemma counts_of_types:
  "map snd (value_counts xs) = map (count_list xs) (map fst (value_counts xs))"
  by (simp add: snd_value_counts)

lemma counts_descending: "sorted_wrt (\<ge>) (map snd (value_counts xs))"
proof -
  let ?k = "\<lambda>(v :: 'a, n :: nat). - int n"
  have "sorted (map ?k (value_counts xs))"
    unfolding value_counts_def by (rule sorted_sort_key)
  then have "sorted_wrt (\<lambda>p q. ?k p \<le> ?k q) (value_counts xs)"
    by (simp only: sorted_map)
  then have "sorted_wrt (\<lambda>p q. snd p \<ge> snd q) (value_counts xs)"
    by (rule sorted_wrt_mono_rel [rotated]) (auto split: prod.splits)
  then show ?thesis
    by (simp only: sorted_wrt_map)
qed

text \<open>The dates of the per-date loops: the distinct dates of the group, ascending.\<close>

lemma get_unique_dates_eq: "get_unique_dates df = sorted_list_of_set (date ` set df)"
proof (cases "df = []")
  case True
  then show ?thesis by (simp add: get_unique_dates_def)
next
  case False
  let ?ds = "sort (map fst (value_counts (map date df)))"
  have "sorted ?ds" by simp
  moreover have "distinct ?ds" by (simp add: fst_value_counts_distinct)
  moreover have "set ?ds = date ` set df"
    using fst_value_counts_set [of "map date df"] by simp
  ultimately have "?ds = sorted_list_of_set (date ` set df)"
    by (metis sorted_list_of_set.idem_if_sorted_distinct)
  with False show ?thesis by (simp add: get_unique_dates_def)
qed

text \<open>
  C7. The aggregator returns, for a group of amounts, the distinct amounts of the group,
  each once, and with each the number of rows of that amount, the counts in descending
  order. The dates the per-date iteration visits are the distinct dates of the platform
  group in strictly ascending order: the two loops of the report run over exactly that list.
\<close>

theorem aggregation_order:
  "(get_stats xs = (counts, types) \<longrightarrow>
      counts = map (count_list xs) types \<and> distinct types \<and> set types = set xs
      \<and> sorted_wrt (\<ge>) counts)
   \<and> sorted_wrt (<) (get_unique_dates df)
   \<and> set (get_unique_dates df) = date ` set df
   \<and> provider_sections F t1 t2 report =
       foldl (date_block_2 F t2)
         (smart_print (NL @ ''>>> PROVIDER: DIGITAL ASSETS TYPE 2 (DIRECT USD)'')
            (foldl (date_block_1 F t1)
               (smart_print ''>>> PROVIDER: DIGITAL ASSETS TYPE 1 (POINTS)'' report)
               (sorted_list_of_set (date ` set t1))))
         (sorted_list_of_set (date ` set t2))"
proof (intro conjI impI)
  assume gs: "get_stats xs = (counts, types)"
  then have c: "counts = map snd (value_counts xs)" and t: "types = map fst (value_counts xs)"
    by (simp_all add: get_stats_def Let_def)
  show "counts = map (count_list xs) types" unfolding c t by (rule counts_of_types)
  show "distinct types" unfolding t by (rule fst_value_counts_distinct)
  show "set types = set xs" unfolding t by (rule fst_value_counts_set)
  show "sorted_wrt (\<ge>) counts" unfolding c by (rule counts_descending)
next
  show "sorted_wrt (<) (get_unique_dates df)"
    by (simp add: get_unique_dates_eq)
  show "set (get_unique_dates df) = date ` set df"
    by (simp add: get_unique_dates_eq)
  show "provider_sections F t1 t2 report =
       foldl (date_block_2 F t2)
         (smart_print (NL @ ''>>> PROVIDER: DIGITAL ASSETS TYPE 2 (DIRECT USD)'')
            (foldl (date_block_1 F t1)
               (smart_print ''>>> PROVIDER: DIGITAL ASSETS TYPE 1 (POINTS)'' report)
               (sorted_list_of_set (date ` set t1))))
         (sorted_list_of_set (date ` set t2))"
    by (simp add: provider_sections_def Let_def get_unique_dates_eq)
qed

theorem aggregation_order_witness:
  "get_stats [20, 50, 50 :: rat] = ([2, 1], [50, 20])
   \<and> [2, 1 :: nat] = map (count_list [20, 50, 50 :: rat]) [50, 20]
   \<and> sorted_wrt (\<ge>) [2, 1 :: nat]"
  using aggregation_order [of "[20, 50, 50 :: rat]" "[2, 1]" "[50, 20]"]
  by (simp add: get_stats_def value_counts_def)

subsection \<open>Loading\<close>

lemma convert_cells_unparsable:
  "c \<in> set cs \<Longrightarrow> p c = Unparsable \<Longrightarrow> convert_cells p cs = Inl ValueError"
  by (induction cs) (auto split: parsed.splits sum.splits)

text \<open>Without a cell that raises, the column is converted, \<^verbatim>\<open>NaT\<close> included.\<close>

lemma convert_cells_parsed:
  "\<forall>c\<in>set cs. p c \<noteq> Unparsable \<Longrightarrow>
     convert_cells p cs
       = Inr (map (\<lambda>c. case p c of Timestamp d \<Rightarrow> Some d | NaT \<Rightarrow> None | Unparsable \<Rightarrow> None) cs)"
  by (induction cs) (auto split: parsed.splits)

lemma load_data_unparsable:
  "raw \<in> set raws \<Longrightarrow> parse (map raw_date raws) (raw_date raw) = Unparsable \<Longrightarrow>
     load_data parse (Some raws) = Inl LoadingError"
  using convert_cells_unparsable [of "raw_date raw" "map raw_date raws" "parse (map raw_date raws)"]
  by (simp add: load_data_def to_datetime_def)

lemma settle_report_written:
  "report_written (settle F account_id bcv_rate clean start_date end_date)"
  by (simp add: settle_def Let_def split: prod.splits sum.splits)

text \<open>
  C8, as stated: a date column that holds a value which cannot be parsed as a date ends the
  run fatally, with no report. A date cell with the text \<^verbatim>\<open>n/a\<close> is no date, but pandas
  reads it as a missing value and \<^verbatim>\<open>pd.to_datetime\<close> turns it into \<^verbatim>\<open>NaT\<close> without
  raising: the workbook is loaded, the run goes on and a report is written.
\<close>

theorem unparsable_date_counterexample:
  "report_written
     (run \<lparr>fmt_g = (\<lambda>x. []), fmt_2f = (\<lambda>x. []), fmt_date = (\<lambda>d. []), str_upper = (\<lambda>s. s),
            sort_values_date = sort_key date\<rparr>
        (\<lambda>column c. if c = ''n/a'' then NaT else Timestamp 3)
        \<lparr>fetched_rate = Some 36, manual_rate = None, data_dir_exists = True,
         files = [''a.xlsx''], choice_input = Some 1,
         read_excel = (\<lambda>f. Some [\<lparr>raw_date = ''n/a'', raw_description = ''Survey'',
                                    raw_platform = ''Digital_Assets_Type_1'', raw_amount = 50\<rparr>]),
         start_input = Some 1, end_input = Some 5\<rparr>)
   \<and> load_data (\<lambda>column c. if c = ''n/a'' then NaT else Timestamp 3)
         (Some [\<lparr>raw_date = ''n/a'', raw_description = ''Survey'',
                  raw_platform = ''Digital_Assets_Type_1'', raw_amount = 50\<rparr>])
       = Inr [\<lparr>date = None, description = ''Survey'', platform = ''Digital_Assets_Type_1'',
                amount = 50\<rparr>]"
  by (simp add: run_def rate_source_def select_account_def py_getitem_def str_replace_def
      load_data_def to_datetime_def set_date_def settle_report_written)

text \<open>
  C8, amended. When the run has a rate, a data directory with workbooks and a selection
  that names a workbook, and \<^verbatim>\<open>pd.to_datetime\<close> raises on a cell of the date column of
  that workbook (a cell that holds neither a date nor a value pandas reads as missing), the
  run ends with the loading error and its message, and writes no report.
\<close>

theorem unparsable_date_is_fatal:
  "rate_source (fetched_rate E) (manual_rate E) = Inr bcv_rate \<Longrightarrow>
   data_dir_exists E \<Longrightarrow> files E \<noteq> [] \<Longrightarrow>
   select_account F (files E) (choice_input E) = Inr (selected_file, account_id) \<Longrightarrow>
   read_excel E selected_file = Some raws \<Longrightarrow>
   raw \<in> set raws \<Longrightarrow> parse (map raw_date raws) (raw_date raw) = Unparsable \<Longrightarrow>
   run F parse E = Exit LoadingError \<and> \<not> report_written (run F parse E)"
  by (simp add: run_def load_data_unparsable)

theorem unparsable_date_is_fatal_witness:
  "run \<lparr>fmt_g = (\<lambda>x. []), fmt_2f = (\<lambda>x. []), fmt_date = (\<lambda>d. []), str_upper = (\<lambda>s. s),
        sort_values_date = sort_key date\<rparr>
      (\<lambda>column c. if c = ''n/a'' then NaT else if c = ''soon'' then Unparsable else Timestamp 3)
      \<lparr>fetched_rate = Some 36, manual_rate = None, data_dir_exists = True,
       files = [''a.xlsx''], choice_input = Some 1,
       read_excel = (\<lambda>f. Some [\<lparr>raw_date = ''soon'', raw_description = ''Survey'',
                                  raw_platform = ''Digital_Assets_Type_1'', raw_amount = 50\<rparr>]),
       start_input = Some 1, end_input = Some 5\<rparr>
     = Exit LoadingError"
  using unparsable_date_is_fatal [where bcv_rate = 36 and selected_file = "''a.xlsx''"
      and account_id = "''a''"
      and F = "\<lparr>fmt_g = (\<lambda>x. []), fmt_2f = (\<lambda>x. []), fmt_date = (\<lambda>d. []),
                str_upper = (\<lambda>s. s), sort_values_date = sort_key date\<rparr>"
      and parse = "\<lambda>column c. if c = ''n/a'' then NaT else if c = ''soon'' then Unparsable
                     else Timestamp 3"
      and raws = "[\<lparr>raw_date = ''soon'', raw_description = ''Survey'',
                    raw_platform = ''Digital_Assets_Type_1'', raw_amount = 50\<rparr>]"
      and raw = "\<lparr>raw_date = ''soon'', raw_description = ''Survey'',
                  raw_platform = ''Digital_Assets_Type_1'', raw_amount = 50\<rparr>"
      and E = "\<lparr>fetched_rate = Some 36, manual_rate = None, data_dir_exists = True,
       files = [''a.xlsx''], choice_input = Some 1,
       read_excel = (\<lambda>f. Some [\<lparr>raw_date = ''soon'', raw_description = ''Survey'',
                                  raw_platform = ''Digital_Assets_Type_1'', raw_amount = 50\<rparr>]),
       start_input = Some 1, end_input = Some 5\<rparr>"]
  by (simp add: rate_source_def select_account_def py_getitem_def str_replace_def)

subsection \<open>Account selection\<close>

text \<open>The selections the code accepts: from one minus the number of files up to that number.\<close>

lemma select_account_accepts:
  "(\<exists>r. select_account F fs (Some choice) = Inr r)
     \<longleftrightarrow> 1 - int (length fs) \<le> choice \<and> choice \<le> int (length fs)"
  by (auto simp: select_account_def py_getitem_def Let_def)

text \<open>
  C5 asks that a selection outside 1 .. number of files ends the run with the invalid
  selection message. With two files listed and the selection 0, the code takes the last
  file (index \<open>-1\<close>), loads it and writes a report.
\<close>

theorem selection_zero_takes_last_file:
  "select_account F [''a.xlsx'', ''b.xlsx''] (Some 0) = Inr (''b.xlsx'', str_upper F ''b'')
   \<and> report_written
       (run F (\<lambda>column c. Timestamp c)
          \<lparr>fetched_rate = Some 36, manual_rate = None, data_dir_exists = True,
           files = [''a.xlsx'', ''b.xlsx''], choice_input = Some 0,
           read_excel = (\<lambda>f. if f = ''b.xlsx''
              then Some [\<lparr>raw_date = 3, raw_description = ''Survey'',
                          raw_platform = ''Digital_Assets_Type_1'', raw_amount = 50\<rparr>]
              else None),
           start_input = Some 1, end_input = Some 5\<rparr>)"
proof -
  have sel: "select_account F [''a.xlsx'', ''b.xlsx''] (Some 0) = Inr (''b.xlsx'', str_upper F ''b'')"
    by (simp add: select_account_def py_getitem_def str_replace_def)
  show ?thesis
    by (simp add: sel run_def rate_source_def load_data_def to_datetime_def
        settle_report_written)
qed

end
